theory Spec2Isabelle
  imports Complex_Main "HOL-Library.AList" "HOL-Library.Multiset"
begin

section \<open>Chart types and the selector's registry (ChartTypeSelector)\<close>

text \<open>
  The union of string literals \<^verbatim>\<open>VisualizationConfig.type\<close> of \<^verbatim>\<open>services/api.ts\<close>.
  \<^verbatim>\<open>ChartType\<close> of the selector is the same union without \<^verbatim>\<open>'error'\<close>; the dashboard
  casts the one to the other unchecked, so a single datatype serves both.
\<close>

datatype ChartType =
    Bar | Line | Pie | Area | Scatter | Radar | Composed | Table | Error
  | Stacked_bar | Stacked_column | Clustered_bar | Clustered_column | Stacked_100
  | Waterfall | Funnel

text \<open>
  An entry of \<^verbatim>\<open>CHART_OPTIONS\<close>. The \<^verbatim>\<open>icon\<close> field holds an emoji that no function
  reads; it is left out.
\<close>

record ChartOption =
  opt_value :: ChartType
  opt_label :: string

definition CHART_OPTIONS :: "ChartOption list" where
  "CHART_OPTIONS =
    [ \<lparr>opt_value = Bar, opt_label = ''Bar''\<rparr>,
      \<lparr>opt_value = Line, opt_label = ''Line''\<rparr>,
      \<lparr>opt_value = Pie, opt_label = ''Pie''\<rparr>,
      \<lparr>opt_value = Area, opt_label = ''Area''\<rparr>,
      \<lparr>opt_value = Scatter, opt_label = ''Scatter''\<rparr>,
      \<lparr>opt_value = Radar, opt_label = ''Radar''\<rparr>,
      \<lparr>opt_value = Composed, opt_label = ''Combo''\<rparr>,
      \<lparr>opt_value = Stacked_column, opt_label = ''Stacked''\<rparr>,
      \<lparr>opt_value = Stacked_bar, opt_label = ''Stacked Bar''\<rparr>,
      \<lparr>opt_value = Clustered_column, opt_label = ''Clustered''\<rparr>,
      \<lparr>opt_value = Clustered_bar, opt_label = ''Clustered Bar''\<rparr>,
      \<lparr>opt_value = Stacked_100, opt_label = ''100% Stacked''\<rparr>,
      \<lparr>opt_value = Waterfall, opt_label = ''Waterfall''\<rparr>,
      \<lparr>opt_value = Funnel, opt_label = ''Funnel''\<rparr>,
      \<lparr>opt_value = Table, opt_label = ''Table''\<rparr> ]"

text \<open>\<^verbatim>\<open>recommendedTypes.includes(type)\<close>\<close>

definition isRecommended :: "ChartType list \<Rightarrow> ChartType \<Rightarrow> bool" where
  "isRecommended recommendedTypes t = (t \<in> set recommendedTypes)"

text \<open>\<^verbatim>\<open>recommendedTypes[0] === type\<close>; on an empty array the left side is undefined.\<close>

definition isAIPick :: "ChartType list \<Rightarrow> ChartType \<Rightarrow> bool" where
  "isAIPick recommendedTypes t =
     (case recommendedTypes of [] \<Rightarrow> False | r # _ \<Rightarrow> r = t)"

text \<open>
  The comparator of \<^verbatim>\<open>sortedOptions\<close> is \<^verbatim>\<open>aRec - bRec\<close>, the difference of the two
  keys below. \<^verbatim>\<open>Array.prototype.sort\<close> is a stable sort; under a comparator that is a
  difference of keys its result is the stable sort by key, which is \<^const>\<open>sort_key\<close>.
\<close>

definition recRank :: "ChartType list \<Rightarrow> ChartOption \<Rightarrow> nat" where
  "recRank recommendedTypes a = (if isRecommended recommendedTypes (opt_value a) then 0 else 1)"

definition rankOptions :: "ChartType list \<Rightarrow> ChartOption list \<Rightarrow> ChartOption list" where
  "rankOptions recommendedTypes opts = sort_key (recRank recommendedTypes) opts"

definition sortedOptions :: "ChartType list \<Rightarrow> ChartOption list" where
  "sortedOptions recommendedTypes = rankOptions recommendedTypes CHART_OPTIONS"

section \<open>Rows and JavaScript coercions\<close>

text \<open>
  A cell of a result row: a number, a string or \<^verbatim>\<open>null\<close>; \<^verbatim>\<open>undefined\<close> is what reading
  an absent key gives. Numbers are modelled as real numbers with exact arithmetic: binary64
  rounding, \<^verbatim>\<open>NaN\<close> as a stored cell and the infinities are outside the model.
\<close>

datatype JsValue = Num real | Str string | Null | Undefined

text \<open>
  A \<^verbatim>\<open>Record<string, unknown>\<close>: the own properties in insertion order, which is the order
  \<^verbatim>\<open>Object.keys\<close> and object spread follow.
\<close>

type_synonym Row = "(string \<times> JsValue) list"

text \<open>\<^verbatim>\<open>row[key]\<close>\<close>

definition getProp :: "Row \<Rightarrow> string \<Rightarrow> JsValue" where
  "getProp row key = (case map_of row key of None \<Rightarrow> Undefined | Some v \<Rightarrow> v)"

text \<open>\<^verbatim>\<open>row[key] = v\<close>: an existing key keeps its place, a new key goes last.\<close>

definition setProp :: "string \<Rightarrow> JsValue \<Rightarrow> Row \<Rightarrow> Row" where
  "setProp key v row = AList.update key v row"

text \<open>\<^verbatim>\<open>Object.keys(row)\<close>\<close>

definition keysOf :: "Row \<Rightarrow> string list" where
  "keysOf row = map fst row"

text \<open>
  \<^verbatim>\<open>Number(v)\<close>, with \<^const>\<open>None\<close> for \<^verbatim>\<open>NaN\<close>. How JavaScript reads a string as a
  number is a parameter, \<open>strToNum\<close>, of everything that converts.
\<close>

fun toNumber :: "(string \<Rightarrow> real option) \<Rightarrow> JsValue \<Rightarrow> real option" where
  "toNumber strToNum (Num r) = Some r"
| "toNumber strToNum (Str s) = strToNum s"
| "toNumber strToNum Null = Some 0"
| "toNumber strToNum Undefined = None"

text \<open>\<^verbatim>\<open>Number(v) || 0\<close>: \<^verbatim>\<open>NaN\<close> and \<^verbatim>\<open>0\<close> are the falsy numbers.\<close>

definition numberOr0 :: "(string \<Rightarrow> real option) \<Rightarrow> JsValue \<Rightarrow> real" where
  "numberOr0 strToNum v =
     (case toNumber strToNum v of None \<Rightarrow> 0 | Some r \<Rightarrow> if r = 0 then 0 else r)"

text \<open>
  \<^verbatim>\<open>String(v)\<close>. How JavaScript prints a number is the parameter \<open>numToStr\<close>.
\<close>

fun toStr :: "(real \<Rightarrow> string) \<Rightarrow> JsValue \<Rightarrow> string" where
  "toStr numToStr (Num r) = numToStr r"
| "toStr numToStr (Str s) = s"
| "toStr numToStr Null = ''null''"
| "toStr numToStr Undefined = ''undefined''"

section \<open>The visualization config (services/api.ts)\<close>

text \<open>\<^verbatim>\<open>yKey?: string | string[]\<close>\<close>

datatype YKey = Single string | Multi "string list"

text \<open>
  What \<^verbatim>\<open>config.data\<close> holds at run time: nothing (\<^verbatim>\<open>null\<close> or \<^verbatim>\<open>undefined\<close>), a string,
  an array of rows, or a single object that is not an array.
\<close>

datatype DataPayload = DataMissing | DataString string | DataArray "Row list" | DataObject Row

record VisualizationConfig =
  type :: ChartType
  title :: string
  xKey :: "string option"
  yKey :: "YKey option"
  data :: DataPayload
  message :: "string option"
  recommended_charts :: "ChartType list option"

record AnalyzeResponse =
  question :: string
  sql_query :: string
  results :: string
  visualization_config :: "VisualizationConfig option"
  steps :: "string list"

section \<open>ChartRenderer: keys and palette\<close>

definition COLORS :: "string list" where
  "COLORS = [''#667eea'', ''#764ba2'', ''#10b981'', ''#f59e0b'',
             ''#ef4444'', ''#3b82f6'', ''#8b5cf6'', ''#ec4899'']"

text \<open>\<^verbatim>\<open>k || dflt\<close> on an optional string: absent and empty are falsy.\<close>

definition orDefault :: "string option \<Rightarrow> string \<Rightarrow> string" where
  "orDefault k dflt = (case k of None \<Rightarrow> dflt | Some s \<Rightarrow> if s = [] then dflt else s)"

text \<open>\<^verbatim>\<open>getYKey()\<close>: the key of single-metric charts.\<close>

definition getYKey :: "VisualizationConfig \<Rightarrow> string" where
  "getYKey config =
     (case yKey config of
        Some (Multi ks) \<Rightarrow> (case ks of [] \<Rightarrow> ''value'' | k # _ \<Rightarrow> orDefault (Some k) ''value'')
      | Some (Single k) \<Rightarrow> orDefault (Some k) ''value''
      | None \<Rightarrow> ''value'')"

text \<open>\<^verbatim>\<open>Array.isArray(config.yKey) ? config.yKey : [config.yKey || 'value']\<close>\<close>

definition yKeysOf :: "VisualizationConfig \<Rightarrow> string list" where
  "yKeysOf config =
     (case yKey config of
        Some (Multi ks) \<Rightarrow> ks
      | Some (Single k) \<Rightarrow> [orDefault (Some k) ''value'']
      | None \<Rightarrow> [''value''])"

text \<open>\<^verbatim>\<open>config.xKey || 'name'\<close>\<close>

definition xKeyOrName :: "VisualizationConfig \<Rightarrow> string" where
  "xKeyOrName config = orDefault (xKey config) ''name''"

section \<open>ChartRenderer: the stacked\_100 transform\<close>

text \<open>
  \<^verbatim>\<open>yKeys.reduce((sum, key) => sum + (Number(row[key]) || 0), 0)\<close>
\<close>

definition rowTotal :: "(string \<Rightarrow> real option) \<Rightarrow> string list \<Rightarrow> Row \<Rightarrow> real" where
  "rowTotal strToNum yKeys row =
     foldl (\<lambda>sum key. sum + numberOr0 strToNum (getProp row key)) 0 yKeys"

text \<open>
  The body of \<^verbatim>\<open>chartData.map((row) => ...)\<close>: a fresh object holding the category key
  alone, then one assignment per metric key, in order.
\<close>

definition percentRow ::
  "(string \<Rightarrow> real option) \<Rightarrow> string \<Rightarrow> string list \<Rightarrow> Row \<Rightarrow> Row" where
  "percentRow strToNum xk yKeys row =
     (let total = rowTotal strToNum yKeys row;
          newRow = [(xk, getProp row xk)]
      in foldl (\<lambda>newRow key.
                  setProp key
                    (Num (if total > 0
                          then (numberOr0 strToNum (getProp row key) / total) * 100
                          else 0))
                    newRow)
               newRow yKeys)"

definition percentData ::
  "(string \<Rightarrow> real option) \<Rightarrow> VisualizationConfig \<Rightarrow> Row list \<Rightarrow> Row list" where
  "percentData strToNum config chartData =
     map (percentRow strToNum (xKeyOrName config) (yKeysOf config)) chartData"

section \<open>ChartRenderer: the waterfall transform\<close>

text \<open>
  One element of \<^verbatim>\<open>waterfallData\<close>: the spread of the row, then the five named fields.
\<close>

definition waterfallEntry :: "string \<Rightarrow> Row \<Rightarrow> real \<Rightarrow> real \<Rightarrow> real \<Rightarrow> Row" where
  "waterfallEntry xk row v start runningTotal =
     setProp ''fill'' (Str (if v \<ge> 0 then ''#10b981'' else ''#ef4444''))
       (setProp ''end'' (Num runningTotal)
         (setProp ''start'' (Num start)
           (setProp ''value'' (Num v)
             (setProp ''name'' (getProp row xk) row))))"

text \<open>
  \<^verbatim>\<open>chartData.map\<close> with the captured variable \<^verbatim>\<open>runningTotal\<close>: the loop threads the
  total through the rows and returns it with the mapped rows.
\<close>

fun waterfallMap ::
  "(string \<Rightarrow> real option) \<Rightarrow> string \<Rightarrow> string \<Rightarrow> real \<Rightarrow> Row list \<Rightarrow> Row list \<times> real" where
  "waterfallMap strToNum xk yk runningTotal [] = ([], runningTotal)"
| "waterfallMap strToNum xk yk runningTotal (row # rows) =
     (let v = numberOr0 strToNum (getProp row yk);
          start = runningTotal;
          runningTotal' = runningTotal + v;
          (rest, final) = waterfallMap strToNum xk yk runningTotal' rows
      in (waterfallEntry xk row v start runningTotal' # rest, final))"

text \<open>The object pushed after the loop.\<close>

definition totalBar :: "real \<Rightarrow> Row" where
  "totalBar runningTotal =
     [(''name'', Str ''Total''), (''value'', Num runningTotal), (''start'', Num 0),
      (''end'', Num runningTotal), (''fill'', Str ''#667eea'')]"

definition waterfallData ::
  "(string \<Rightarrow> real option) \<Rightarrow> VisualizationConfig \<Rightarrow> Row list \<Rightarrow> Row list" where
  "waterfallData strToNum config chartData =
     (let (mapped, runningTotal) =
            waterfallMap strToNum (xKeyOrName config) (getYKey config) 0 chartData
      in mapped @ [totalBar runningTotal])"

section \<open>ChartRenderer: the funnel transform\<close>

record FunnelEntry =
  f_name :: string
  f_value :: real
  f_fill :: string

text \<open>The \<^verbatim>\<open>.map((row, index) => ...)\<close> step, before sorting.\<close>

definition funnelEntry ::
  "(real \<Rightarrow> string) \<Rightarrow> (string \<Rightarrow> real option) \<Rightarrow> string \<Rightarrow> string \<Rightarrow> nat \<Rightarrow> Row \<Rightarrow> FunnelEntry" where
  "funnelEntry numToStr strToNum xk yk index row =
     \<lparr> f_name = toStr numToStr (getProp row xk),
       f_value = numberOr0 strToNum (getProp row yk),
       f_fill = COLORS ! (index mod length COLORS) \<rparr>"

definition funnelMapped ::
  "(real \<Rightarrow> string) \<Rightarrow> (string \<Rightarrow> real option) \<Rightarrow> VisualizationConfig \<Rightarrow> Row list \<Rightarrow> FunnelEntry list" where
  "funnelMapped numToStr strToNum config chartData =
     map (\<lambda>(index, row). funnelEntry numToStr strToNum (xKeyOrName config) (getYKey config) index row)
         (enumerate 0 chartData)"

text \<open>
  \<^verbatim>\<open>.sort((a, b) => b.value - a.value)\<close>: the stable sort by descending value, that is
  the stable sort by the key \<open>- value\<close>.
\<close>

definition funnelData ::
  "(real \<Rightarrow> string) \<Rightarrow> (string \<Rightarrow> real option) \<Rightarrow> VisualizationConfig \<Rightarrow> Row list \<Rightarrow> FunnelEntry list" where
  "funnelData numToStr strToNum config chartData =
     sort_key (\<lambda>e. - f_value e) (funnelMapped numToStr strToNum config chartData)"

section \<open>ChartRenderer: axis tick formatters of the composed chart\<close>

definition digitChar :: "nat \<Rightarrow> char" where
  "digitChar d = ''0123456789'' ! d"

fun decimalDigits :: "nat \<Rightarrow> string" where
  "decimalDigits n =
     (if n < 10 then [digitChar n] else decimalDigits (n div 10) @ [digitChar (n mod 10)])"

declare decimalDigits.simps [simp del]




text \<open>The right axis is rendered under \<^verbatim>\<open>yKeys.length > 1\<close> only.\<close>

definition hasRightAxis :: "VisualizationConfig \<Rightarrow> bool" where
  "hasRightAxis config = (length (yKeysOf config) > 1)"

section \<open>ChartRenderer: what is rendered\<close>

text \<open>
  The element \<^verbatim>\<open>renderChart()\<close> returns, reduced to what the transforms decide: the kind
  of chart and the rows handed to it as \<^verbatim>\<open>data\<close>. The table and its placeholder are the
  two results of \<^verbatim>\<open>renderTable\<close>.
\<close>

datatype ChartView =
    Recharts ChartType "Row list"
  | FunnelView "FunnelEntry list"
  | NoDataAvailable
  | TableView "string list" "string list list"

text \<open>
  What the component returns: \<^verbatim>\<open>null\<close>, the error card (title and message), the card
  that shows an unparsed string in a \<^verbatim>\<open>pre\<close> element, or the card with title and chart.
\<close>

datatype RenderInstruction =
    RenderNull
  | ErrorCard string "string option"
  | RawTextCard string string
  | ChartCard string ChartView

text \<open>\<^verbatim>\<open>String(row[col] ?? '-')\<close>\<close>

definition cellText :: "(real \<Rightarrow> string) \<Rightarrow> JsValue \<Rightarrow> string" where
  "cellText numToStr v =
     toStr numToStr (case v of Null \<Rightarrow> Str ''-'' | Undefined \<Rightarrow> Str ''-'' | _ \<Rightarrow> v)"

definition renderTable :: "(real \<Rightarrow> string) \<Rightarrow> Row list \<Rightarrow> ChartView" where
  "renderTable numToStr rows =
     (case rows of
        [] \<Rightarrow> NoDataAvailable
      | first # _ \<Rightarrow>
          (let columns = keysOf first
           in TableView columns
                (map (\<lambda>row. map (\<lambda>col. cellText numToStr (getProp row col)) columns) rows)))"

text \<open>The \<^verbatim>\<open>switch (config.type)\<close> of \<^verbatim>\<open>renderChart\<close>, case by case.\<close>

fun renderChart ::
  "(real \<Rightarrow> string) \<Rightarrow> (string \<Rightarrow> real option) \<Rightarrow> VisualizationConfig \<Rightarrow> Row list \<Rightarrow> ChartType \<Rightarrow> ChartView" where
  "renderChart numToStr strToNum config chartData Bar = Recharts Bar chartData"
| "renderChart numToStr strToNum config chartData Line = Recharts Line chartData"
| "renderChart numToStr strToNum config chartData Pie = Recharts Pie chartData"
| "renderChart numToStr strToNum config chartData Area = Recharts Area chartData"
| "renderChart numToStr strToNum config chartData Scatter = Recharts Scatter chartData"
| "renderChart numToStr strToNum config chartData Radar = Recharts Radar chartData"
| "renderChart numToStr strToNum config chartData Composed = Recharts Composed chartData"
| "renderChart numToStr strToNum config chartData Stacked_column = Recharts Stacked_column chartData"
| "renderChart numToStr strToNum config chartData Stacked_bar = Recharts Stacked_bar chartData"
| "renderChart numToStr strToNum config chartData Clustered_column =
     Recharts Clustered_column chartData"
| "renderChart numToStr strToNum config chartData Clustered_bar = Recharts Clustered_bar chartData"
| "renderChart numToStr strToNum config chartData Stacked_100 =
     Recharts Stacked_100 (percentData strToNum config chartData)"
| "renderChart numToStr strToNum config chartData Waterfall =
     Recharts Waterfall (waterfallData strToNum config chartData)"
| "renderChart numToStr strToNum config chartData Funnel =
     FunnelView (funnelData numToStr strToNum config chartData)"
| "renderChart numToStr strToNum config chartData Table = renderTable numToStr chartData"
| "renderChart numToStr strToNum config chartData Error = renderTable numToStr chartData"

section \<open>ChartRenderer: the component\<close>

text \<open>
  What \<^verbatim>\<open>JSON.parse\<close> returns on the payloads of this application, an array of rows or
  a single row; \<^const>\<open>None\<close> stands for the \<^verbatim>\<open>SyntaxError\<close> it throws. The parser
  itself is a parameter, \<open>jsonParse\<close>.
\<close>

datatype Parsed = PArray "Row list" | PObject Row

text \<open>\<^verbatim>\<open>!config.data\<close>: nothing and the empty string are falsy, arrays and objects are not.\<close>

fun dataFalsy :: "DataPayload \<Rightarrow> bool" where
  "dataFalsy DataMissing = True"
| "dataFalsy (DataString str) = (str = [])"
| "dataFalsy (DataArray rows) = False"
| "dataFalsy (DataObject row) = False"

text \<open>
  The guards in the order of the source: missing config or data, the error type, the
  string payload with its \<^verbatim>\<open>try\<close>/\<^verbatim>\<open>catch\<close>, the array payload; any other payload leaves
  \<^verbatim>\<open>chartData\<close> at its initial \<^verbatim>\<open>[]\<close>. A parsed value that is not an array is wrapped.
\<close>

definition ChartRenderer ::
  "(real \<Rightarrow> string) \<Rightarrow> (string \<Rightarrow> real option) \<Rightarrow> (string \<Rightarrow> Parsed option) \<Rightarrow>
   VisualizationConfig option \<Rightarrow> RenderInstruction" where
  "ChartRenderer numToStr strToNum jsonParse cfg =
     (case cfg of
        None \<Rightarrow> RenderNull
      | Some config \<Rightarrow>
          if dataFalsy (data config) then RenderNull
          else if type config = Error then ErrorCard (title config) (message config)
          else
            (case data config of
               DataString str \<Rightarrow>
                 (case jsonParse str of
                    None \<Rightarrow> RawTextCard (title config) str
                  | Some (PArray rows) \<Rightarrow>
                      ChartCard (title config)
                        (renderChart numToStr strToNum config rows (type config))
                  | Some (PObject row) \<Rightarrow>
                      ChartCard (title config)
                        (renderChart numToStr strToNum config [row] (type config)))
             | DataArray rows \<Rightarrow>
                 ChartCard (title config)
                   (renderChart numToStr strToNum config rows (type config))
             | _ \<Rightarrow>
                 ChartCard (title config)
                   (renderChart numToStr strToNum config [] (type config))))"

section \<open>DataTable\<close>




section \<open>Dashboard: the selection state\<close>

text \<open>The five \<^verbatim>\<open>useState\<close> cells of the component.\<close>

record DashboardState =
  isLoading :: bool
  stepLog :: "string list"
  result :: "AnalyzeResponse option"
  error :: "string option"
  selectedChartType :: "ChartType option"

definition initialState :: DashboardState where
  "initialState =
     \<lparr> isLoading = False, stepLog = [], result = None, error = None,
       selectedChartType = None \<rparr>"

text \<open>
  \<^verbatim>\<open>handleSubmit\<close> up to the \<^verbatim>\<open>await\<close>. (The step texts carry an emoji in the source,
  left out here.)
\<close>

definition handleSubmit_begin :: "DashboardState \<Rightarrow> DashboardState" where
  "handleSubmit_begin s =
     s\<lparr> isLoading := True, stepLog := [''Sending question to InsightAI...''],
        result := None, error := None, selectedChartType := None \<rparr>"

text \<open>
  \<^verbatim>\<open>handleSubmit\<close> after the \<^verbatim>\<open>await\<close>, when \<^verbatim>\<open>analyzeQuestion\<close> returned a response:
  the selection becomes \<^verbatim>\<open>response.visualization_config?.type || 'bar'\<close>.
\<close>

definition handleSubmit_resolved :: "AnalyzeResponse \<Rightarrow> DashboardState \<Rightarrow> DashboardState" where
  "handleSubmit_resolved response s =
     s\<lparr> stepLog := steps response,
        result := Some response,
        selectedChartType :=
          Some (case visualization_config response of None \<Rightarrow> Bar | Some c \<Rightarrow> type c),
        isLoading := False \<rparr>"

text \<open>
  The \<^verbatim>\<open>catch\<close> branch, with the message already extracted from what was thrown (the
  appended step text without its emoji).
\<close>

definition handleSubmit_rejected :: "string \<Rightarrow> DashboardState \<Rightarrow> DashboardState" where
  "handleSubmit_rejected errorMessage s =
     s\<lparr> error := Some errorMessage,
        stepLog := stepLog s @ [''Error: '' @ errorMessage],
        isLoading := False \<rparr>"

text \<open>The whole handler, given how \<^verbatim>\<open>analyzeQuestion\<close> ends.\<close>

definition handleSubmit :: "string + AnalyzeResponse \<Rightarrow> DashboardState \<Rightarrow> DashboardState" where
  "handleSubmit outcome s =
     (case outcome of
        Inr response \<Rightarrow> handleSubmit_resolved response (handleSubmit_begin s)
      | Inl errorMessage \<Rightarrow> handleSubmit_rejected errorMessage (handleSubmit_begin s))"

definition handleChartTypeChange :: "ChartType \<Rightarrow> DashboardState \<Rightarrow> DashboardState" where
  "handleChartTypeChange t s = s\<lparr> selectedChartType := Some t \<rparr>"

text \<open>A sequence of user picks, applied in order.\<close>

definition userPicks :: "ChartType list \<Rightarrow> DashboardState \<Rightarrow> DashboardState" where
  "userPicks ts s = foldl (\<lambda>s t. handleChartTypeChange t s) s ts"

text \<open>\<^verbatim>\<open>result?.visualization_config\<close>\<close>

definition currentConfig :: "DashboardState \<Rightarrow> VisualizationConfig option" where
  "currentConfig s =
     (case result s of None \<Rightarrow> None | Some r \<Rightarrow> visualization_config r)"

definition getEffectiveConfig :: "DashboardState \<Rightarrow> VisualizationConfig option" where
  "getEffectiveConfig s =
     (case currentConfig s of
        None \<Rightarrow> None
      | Some c \<Rightarrow>
          Some (c\<lparr> type := (case selectedChartType s of Some t \<Rightarrow> t | None \<Rightarrow> type c) \<rparr>))"

definition aiRecommendedType :: "DashboardState \<Rightarrow> ChartType option" where
  "aiRecommendedType s = map_option type (currentConfig s)"

text \<open>
  \<^verbatim>\<open>(recommended_charts || [aiRecommendedType]).filter(Boolean)\<close>: an empty array is truthy
  and stays; an undefined \<^verbatim>\<open>aiRecommendedType\<close> is filtered out.
\<close>

definition recommendedCharts :: "DashboardState \<Rightarrow> ChartType list" where
  "recommendedCharts s =
     (case currentConfig s of
        None \<Rightarrow> []
      | Some c \<Rightarrow> (case recommended_charts c of Some rs \<Rightarrow> rs | None \<Rightarrow> [type c]))"

section \<open>Concrete builtins and sample inputs for the examples\<close>

text \<open>
  The theorems hold for every reading of strings as numbers, every printing of numbers
  and every JSON parser. The examples need concrete ones. \<open>printInteger\<close> prints an
  integral number the way JavaScript does below \<open>10^21\<close>; \<open>readDigits\<close> reads the
  empty string as \<open>0\<close> and a string of decimal digits as its value, and takes any other
  string for \<^verbatim>\<open>NaN\<close>; \<open>parseNothing\<close> is a parser on which every string fails.
\<close>

definition printInteger :: "real \<Rightarrow> string" where
  "printInteger x = (if x < 0 then ''-'' else []) @ decimalDigits (nat \<lfloor>\<bar>x\<bar>\<rfloor>)"

fun digitsValue :: "nat \<Rightarrow> string \<Rightarrow> nat option" where
  "digitsValue acc [] = Some acc"
| "digitsValue acc (c # cs) =
     (if c \<in> set ''0123456789''
      then digitsValue (10 * acc + (of_char c - 48)) cs else None)"

definition readDigits :: "string \<Rightarrow> real option" where
  "readDigits s = map_option real (digitsValue 0 s)"

definition parseNothing :: "string \<Rightarrow> Parsed option" where
  "parseNothing s = None"

text \<open>
  A result whose \<^verbatim>\<open>type\<close> is \<^verbatim>\<open>'bar'\<close> while \<^verbatim>\<open>recommended_charts\<close> starts with
  \<^verbatim>\<open>'line'\<close>, over no rows.
\<close>

definition sampleConfig :: VisualizationConfig where
  "sampleConfig =
     \<lparr> type = Bar, title = ''Sales'', xKey = Some ''cat'', yKey = Some (Multi [''x'', ''y'']),
       data = DataArray [], message = None, recommended_charts = Some [Line, Bar] \<rparr>"

definition sampleResponse :: AnalyzeResponse where
  "sampleResponse =
     \<lparr> question = ''sales by category'', sql_query = ''SELECT 1'', results = ''[]'',
       visualization_config = Some sampleConfig, steps = [''done''] \<rparr>"

section \<open>Ranking: helper lemmas\<close>

lemma insort_key_front:
  "\<forall>y \<in> set ys. k x \<le> k y \<Longrightarrow> insort_key k x ys = x # ys"
  by (cases ys) auto

lemma insort_key_past:
  "\<forall>y \<in> set as. k y < k x \<Longrightarrow> insort_key k x (as @ bs) = as @ insort_key k x bs"
  by (induction as) auto

lemma sort_key_two_ranks:
  fixes k :: "'a \<Rightarrow> nat"
  assumes "\<forall>x \<in> set xs. k x \<le> 1"
  shows "sort_key k xs = filter (\<lambda>x. k x = 0) xs @ filter (\<lambda>x. k x \<noteq> 0) xs"
  using assms
proof (induction xs)
  case Nil
  show ?case by simp
next
  case (Cons x xs)
  let ?A = "filter (\<lambda>x. k x = 0) xs" and ?B = "filter (\<lambda>x. k x \<noteq> 0) xs"
  from Cons have ih: "sort_key k xs = ?A @ ?B" and bnd: "\<forall>y \<in> set xs. k y \<le> 1" by auto
  show ?case
  proof (cases "k x = 0")
    case True
    then have "insort_key k x (?A @ ?B) = x # ?A @ ?B"
      by (intro insort_key_front) simp
    with True ih show ?thesis by simp
  next
    case False
    with Cons.prems have kx: "k x = 1" by auto
    have "insort_key k x (?A @ ?B) = ?A @ insort_key k x ?B"
      by (rule insort_key_past) (simp add: kx)
    moreover have "insort_key k x ?B = x # ?B"
    proof (rule insort_key_front)
      show "\<forall>y \<in> set ?B. k x \<le> k y" using bnd kx by auto
    qed
    ultimately show ?thesis using False ih by simp
  qed
qed

lemma rankOptions_partition:
  "rankOptions rs opts =
     filter (\<lambda>a. isRecommended rs (opt_value a)) opts @
     filter (\<lambda>a. \<not> isRecommended rs (opt_value a)) opts"
proof -
  have "\<forall>a \<in> set opts. recRank rs a \<le> 1" by (simp add: recRank_def)
  from sort_key_two_ranks [OF this]
  have "rankOptions rs opts =
      filter (\<lambda>a. recRank rs a = 0) opts @ filter (\<lambda>a. recRank rs a \<noteq> 0) opts"
    by (simp add: rankOptions_def)
  moreover have "(\<lambda>a. recRank rs a = 0) = (\<lambda>a. isRecommended rs (opt_value a))"
    by (rule ext) (simp add: recRank_def)
  moreover have "(\<lambda>a. recRank rs a \<noteq> 0) = (\<lambda>a. \<not> isRecommended rs (opt_value a))"
    by (rule ext) (simp add: recRank_def)
  ultimately show ?thesis by simp
qed


lemma rankOptions_idem: "rankOptions rs (rankOptions rs opts) = rankOptions rs opts"
  by (simp add: rankOptions_partition [of rs "filter _ opts @ filter _ opts"]
        rankOptions_partition [of rs opts])

section \<open>The recommendation ranker\<close>

text \<open>
  Claim C6. For every list of recommended chart types, the selector's order is a stable
  partition of the registry \<^const>\<open>CHART_OPTIONS\<close>: the recommended entries in registry
  order, followed by the other entries in registry order. Ranking the ranked list again
  with the same recommendations changes nothing.
\<close>

theorem sortedOptions_stable_partition:
  "sortedOptions rs =
     filter (\<lambda>a. isRecommended rs (opt_value a)) CHART_OPTIONS @
     filter (\<lambda>a. \<not> isRecommended rs (opt_value a)) CHART_OPTIONS
   \<and> rankOptions rs (sortedOptions rs) = sortedOptions rs"
  unfolding sortedOptions_def
  using rankOptions_partition [of rs CHART_OPTIONS] rankOptions_idem [of rs CHART_OPTIONS]
  by simp


section \<open>The selection state across a new result\<close>

lemma selectedChartType_resolved:
  "selectedChartType (handleSubmit_resolved response s) =
     Some (case visualization_config response of None \<Rightarrow> Bar | Some c \<Rightarrow> type c)"
  by (simp add: handleSubmit_resolved_def)

lemma currentConfig_resolved:
  "currentConfig (handleSubmit_resolved response s) = visualization_config response"
  by (simp add: handleSubmit_resolved_def currentConfig_def)

text \<open>
  Claim C1, as stated, fails: after the pick \<^verbatim>\<open>'pie'\<close> and the arrival of the sample
  result, whose recommendations start with \<^verbatim>\<open>'line'\<close>, the selection is the config's
  \<^verbatim>\<open>type\<close>, \<^verbatim>\<open>'bar'\<close>, not the first recommendation.
\<close>

theorem selection_is_not_first_recommendation:
  "recommendedCharts (handleSubmit (Inr sampleResponse) (userPicks [Pie] initialState)) ! 0 = Line
   \<and> selectedChartType (handleSubmit (Inr sampleResponse) (userPicks [Pie] initialState))
       = Some Bar"
  by (simp add: handleSubmit_def selectedChartType_resolved currentConfig_resolved
        recommendedCharts_def sampleResponse_def sampleConfig_def)

text \<open>
  Claim C1, amended. For every state, every sequence of user picks before the query and
  every sequence of picks made while it is pending, once the new result has arrived the
  selection is the \<^verbatim>\<open>type\<close> of the new config (\<^verbatim>\<open>'bar'\<close> when the response has no
  config): it is the dashboard's AI default \<^verbatim>\<open>aiRecommendedType\<close>, no earlier pick
  survives, and the effective config is the new config unchanged. The recommendation
  list plays no part in it.
\<close>

theorem new_result_resets_selection:
  "selectedChartType (handleSubmit (Inr response) (userPicks picks s)) =
     Some (case visualization_config response of None \<Rightarrow> Bar | Some c \<Rightarrow> type c)
   \<and> selectedChartType
        (handleSubmit_resolved response (userPicks pending (handleSubmit_begin (userPicks picks s)))) =
     Some (case visualization_config response of None \<Rightarrow> Bar | Some c \<Rightarrow> type c)
   \<and> aiRecommendedType (handleSubmit (Inr response) (userPicks picks s)) =
     map_option type (visualization_config response)
   \<and> getEffectiveConfig (handleSubmit (Inr response) (userPicks picks s)) =
     visualization_config response"
  by (cases "visualization_config response")
     (simp_all add: handleSubmit_def selectedChartType_resolved currentConfig_resolved
        aiRecommendedType_def getEffectiveConfig_def)


section \<open>Empty data and unparsable data\<close>

lemma waterfallData_Nil: "waterfallData strToNum config [] = [totalBar 0]"
  by (simp add: waterfallData_def)

lemma funnelData_Nil: "funnelData numToStr strToNum config [] = []"
  by (simp add: funnelData_def funnelMapped_def enumerate_eq_zip)

text \<open>
  Claim C8, as stated, fails: a bar chart over an empty array of rows is rendered as a
  bar chart with no rows, not as the placeholder.
\<close>

theorem empty_bar_chart_is_not_placeholder:
  "ChartRenderer printInteger readDigits parseNothing (Some sampleConfig) =
     ChartCard ''Sales'' (Recharts Bar [])"
  by (simp add: ChartRenderer_def sampleConfig_def)

text \<open>
  Claim C8, amended. When the normalized rows are empty, the placeholder
  \<^verbatim>\<open>No data available\<close> is returned for the table family only (the type \<^verbatim>\<open>'table'\<close> and
  whatever falls to the \<^verbatim>\<open>default\<close> branch of the switch). The funnel gets no entries,
  the waterfall gets its single \<^verbatim>\<open>Total\<close> bar of value 0, and every other chart family
  gets its chart over the empty rows. For an empty array payload the component returns
  the error card when the type is \<^verbatim>\<open>'error'\<close> and the titled card otherwise.
\<close>

theorem empty_data_rendering:
  "renderChart numToStr strToNum config [] t =
     (if t = Table \<or> t = Error then NoDataAvailable
      else if t = Funnel then FunnelView []
      else if t = Waterfall then Recharts Waterfall [totalBar 0]
      else Recharts t [])
   \<and> ChartRenderer numToStr strToNum jsonParse (Some (config\<lparr>data := DataArray []\<rparr>)) =
     (if type config = Error then ErrorCard (title config) (message config)
      else ChartCard (title config)
             (renderChart numToStr strToNum (config\<lparr>data := DataArray []\<rparr>) [] (type config)))"
  by (cases t)
     (simp_all add: renderTable_def percentData_def waterfallData_Nil funnelData_Nil
        ChartRenderer_def)





section \<open>The tabular views\<close>

lemma getProp_missing: "key \<notin> set (keysOf row) \<Longrightarrow> getProp row key = Undefined"
  by (simp add: getProp_def keysOf_def map_of_eq_None_iff [THEN iffD2])






section \<open>The waterfall transform\<close>

lemma getProp_setProp:
  "getProp (setProp key v row) key' = (if key' = key then v else getProp row key')"
  by (simp add: getProp_def setProp_def update_conv')

lemma waterfallEntry_fields:
  "getProp (waterfallEntry xk row v start rt) ''start'' = Num start"
  "getProp (waterfallEntry xk row v start rt) ''end'' = Num rt"
  "getProp (waterfallEntry xk row v start rt) ''value'' = Num v"
  "getProp (waterfallEntry xk row v start rt) ''name'' = getProp row xk"
  "getProp (waterfallEntry xk row v start rt) ''fill'' =
     Str (if v \<ge> 0 then ''#10b981'' else ''#ef4444'')"
  by (simp_all add: waterfallEntry_def getProp_setProp)

lemma length_waterfallMap:
  "length (fst (waterfallMap strToNum xk yk acc rows)) = length rows"
  by (induction rows arbitrary: acc) (simp_all add: Let_def case_prod_beta)

lemma snd_waterfallMap:
  "snd (waterfallMap strToNum xk yk acc rows) =
     acc + sum_list (map (\<lambda>row. numberOr0 strToNum (getProp row yk)) rows)"
  by (induction rows arbitrary: acc) (simp_all add: Let_def case_prod_beta)

lemma nth_waterfallMap:
  "i < length rows \<Longrightarrow>
   fst (waterfallMap strToNum xk yk acc rows) ! i =
     waterfallEntry xk (rows ! i) (numberOr0 strToNum (getProp (rows ! i) yk))
       (acc + sum_list (map (\<lambda>row. numberOr0 strToNum (getProp row yk)) (take i rows)))
       (acc + sum_list (map (\<lambda>row. numberOr0 strToNum (getProp row yk)) (take (Suc i) rows)))"
proof (induction rows arbitrary: acc i)
  case Nil
  then show ?case by simp
next
  case (Cons row rows)
  show ?case
  proof (cases i)
    case 0
    then show ?thesis by (simp add: Let_def case_prod_beta)
  next
    case (Suc j)
    with Cons.prems have "j < length rows" by simp
    from Cons.IH [OF this, of "acc + numberOr0 strToNum (getProp row yk)"] Suc
    show ?thesis by (simp add: Let_def add.assoc case_prod_beta)
  qed
qed

text \<open>
  Claim C2. With \<open>v\<close> the numeric value of row \<open>i\<close> at the primary key (0 when it is
  missing or not a number), the waterfall transform returns one row per input row, in
  the input order, followed by exactly one more row. Row \<open>i\<close> has \<open>start\<close> equal to the sum
  of the values before it (the running total, which starts at 0), \<open>end\<close> equal to that
  sum plus \<open>v\<close>, \<open>value\<close> equal to \<open>v\<close>, and the colour of its sign. The last row is named
  \<^verbatim>\<open>Total\<close>, starts at 0, ends at the final running total and has it as value, in a third
  colour.
\<close>

theorem waterfall_running_total:
  fixes rows :: "Row list" and strToNum :: "string \<Rightarrow> real option"
    and config :: VisualizationConfig
  defines "vs \<equiv> map (\<lambda>row. numberOr0 strToNum (getProp row (getYKey config))) rows"
  defines "out \<equiv> waterfallData strToNum config rows"
  shows "length out = length rows + 1
    \<and> (\<forall>i < length rows.
          getProp (out ! i) ''start'' = Num (sum_list (take i vs))
        \<and> getProp (out ! i) ''end'' = Num (sum_list (take i vs) + vs ! i)
        \<and> getProp (out ! i) ''value'' = Num (vs ! i)
        \<and> getProp (out ! i) ''fill'' = Str (if vs ! i \<ge> 0 then ''#10b981'' else ''#ef4444''))
    \<and> out ! length rows =
         [(''name'', Str ''Total''), (''value'', Num (sum_list vs)), (''start'', Num 0),
          (''end'', Num (sum_list vs)), (''fill'', Str ''#667eea'')]"
proof -
  let ?xk = "xKeyOrName config" and ?yk = "getYKey config"
  let ?m = "waterfallMap strToNum ?xk ?yk 0 rows"
  have out: "out = fst ?m @ [totalBar (snd ?m)]"
    by (simp add: out_def waterfallData_def case_prod_beta)
  have len: "length (fst ?m) = length rows" by (rule length_waterfallMap)
  have tot: "snd ?m = sum_list vs" by (simp add: snd_waterfallMap vs_def)
  have row: "getProp (out ! i) ''start'' = Num (sum_list (take i vs))
        \<and> getProp (out ! i) ''end'' = Num (sum_list (take i vs) + vs ! i)
        \<and> getProp (out ! i) ''value'' = Num (vs ! i)
        \<and> getProp (out ! i) ''fill'' = Str (if vs ! i \<ge> 0 then ''#10b981'' else ''#ef4444'')"
    if "i < length rows" for i
  proof -
    have "out ! i = fst ?m ! i" using that len by (simp add: out nth_append)
    moreover have "take (Suc i) vs = take i vs @ [vs ! i]"
      using that by (simp add: vs_def take_Suc_conv_app_nth)
    ultimately show ?thesis
      using that nth_waterfallMap [of i rows strToNum ?xk ?yk 0]
      by (simp add: waterfallEntry_fields vs_def take_map [symmetric])
  qed
  have last: "out ! length rows = totalBar (sum_list vs)"
    using len tot by (simp add: out nth_append)
  show ?thesis
    using row last len by (simp add: out totalBar_def)
qed

theorem waterfall_running_total_witness:
  "map (\<lambda>r. (getProp r ''start'', getProp r ''end''))
     (waterfallData readDigits (sampleConfig\<lparr>xKey := None, yKey := None\<rparr>)
        [[(''name'', Str ''a''), (''value'', Num 5)],
         [(''name'', Str ''b''), (''value'', Num (- 3))],
         [(''name'', Str ''c''), (''value'', Num 2)]])
     = [(Num 0, Num 5), (Num 5, Num 2), (Num 2, Num 4), (Num 0, Num 4)]
   \<and> last (waterfallData readDigits (sampleConfig\<lparr>xKey := None, yKey := None\<rparr>)
        [[(''name'', Str ''a''), (''value'', Num 5)],
         [(''name'', Str ''b''), (''value'', Num (- 3))],
         [(''name'', Str ''c''), (''value'', Num 2)]])
     = [(''name'', Str ''Total''), (''value'', Num 4), (''start'', Num 0), (''end'', Num 4),
        (''fill'', Str ''#667eea'')]"
  using waterfall_running_total
    [where config = "sampleConfig\<lparr>xKey := None, yKey := None\<rparr>"
       and rows = "[[(''name'', Str ''a''), (''value'', Num 5)],
          [(''name'', Str ''b''), (''value'', Num (- 3))],
          [(''name'', Str ''c''), (''value'', Num 2)]]"
       and strToNum = readDigits]
  by (simp add: waterfallData_def waterfallEntry_def totalBar_def getYKey_def xKeyOrName_def
        orDefault_def numberOr0_def getProp_def setProp_def Let_def case_prod_beta)


section \<open>The stacked\_100 transform\<close>

lemma foldl_add_sum_list:
  fixes f :: "'a \<Rightarrow> real"
  shows "foldl (\<lambda>sum key. sum + f key) a ks = a + sum_list (map f ks)"
  by (induction ks arbitrary: a) simp_all

lemma rowTotal_sum_list:
  "rowTotal strToNum yKeys row = (\<Sum>key\<leftarrow>yKeys. numberOr0 strToNum (getProp row key))"
  by (simp add: rowTotal_def foldl_add_sum_list)

lemma getProp_foldl_setProp:
  "getProp (foldl (\<lambda>newRow key. setProp key (f key) newRow) row0 ks) k =
     (if k \<in> set ks then f k else getProp row0 k)"
  by (induction ks arbitrary: row0) (auto simp: getProp_setProp)

lemma keysOf_setProp: "set (keysOf (setProp key v row)) = insert key (set (keysOf row))"
  by (simp add: keysOf_def setProp_def dom_update)

lemma keysOf_foldl_setProp:
  "set (keysOf (foldl (\<lambda>newRow key. setProp key (f key) newRow) row0 ks)) =
     set (keysOf row0) \<union> set ks"
  by (induction ks arbitrary: row0) (auto simp: keysOf_setProp)

lemma getProp_singleton: "getProp [(key, v)] k = (if k = key then v else Undefined)"
  by (simp add: getProp_def)

lemma numberOr0_simps:
  "numberOr0 strToNum (Num r) = r"
  "numberOr0 strToNum Null = 0"
  "numberOr0 strToNum Undefined = 0"
  "strToNum s = None \<Longrightarrow> numberOr0 strToNum (Str s) = 0"
  by (simp_all add: numberOr0_def)

lemma getProp_percentRow_metric:
  "k \<in> set yKeys \<Longrightarrow>
   getProp (percentRow strToNum xk yKeys row) k =
     Num (if rowTotal strToNum yKeys row > 0
          then numberOr0 strToNum (getProp row k) / rowTotal strToNum yKeys row * 100
          else 0)"
  by (simp add: percentRow_def Let_def getProp_foldl_setProp)

lemma getProp_percentRow_other:
  "k \<notin> set yKeys \<Longrightarrow>
   getProp (percentRow strToNum xk yKeys row) k = (if k = xk then getProp row xk else Undefined)"
  by (simp add: percentRow_def Let_def getProp_foldl_setProp getProp_singleton)

lemma keysOf_percentRow:
  "set (keysOf (percentRow strToNum xk yKeys row)) = insert xk (set yKeys)"
  by (simp add: percentRow_def Let_def keysOf_foldl_setProp) (simp add: keysOf_def)

text \<open>
  Claim C3. For every row, the total of the stacked\_100 transform is the sum over the
  metric keys of the row's numeric values, where a missing key, \<^verbatim>\<open>null\<close> and a string that
  is not a number count as 0. The output row holds, for each metric key, the value
  divided by the total times 100 when the total is positive, and 0 otherwise, so in
  particular when the total is 0: no division by zero is ever evaluated.
\<close>

theorem stacked_100_percentages:
  "rowTotal strToNum (yKeysOf config) row =
     (\<Sum>key\<leftarrow>yKeysOf config. numberOr0 strToNum (getProp row key))
   \<and> (\<forall>k. k \<notin> set (keysOf row) \<longrightarrow> numberOr0 strToNum (getProp row k) = 0)
   \<and> numberOr0 strToNum Null = 0
   \<and> (\<forall>s. strToNum s = None \<longrightarrow> numberOr0 strToNum (Str s) = 0)
   \<and> (\<forall>i < length rows. \<forall>k \<in> set (yKeysOf config).
         getProp (percentData strToNum config rows ! i) k =
           Num (if rowTotal strToNum (yKeysOf config) (rows ! i) > 0
                then numberOr0 strToNum (getProp (rows ! i) k)
                       / rowTotal strToNum (yKeysOf config) (rows ! i) * 100
                else 0))"
proof -
  have "numberOr0 strToNum (getProp row k) = 0" if "k \<notin> set (keysOf row)" for k
    using that by (simp add: getProp_missing numberOr0_simps)
  moreover have "getProp (percentData strToNum config rows ! i) k =
           Num (if rowTotal strToNum (yKeysOf config) (rows ! i) > 0
                then numberOr0 strToNum (getProp (rows ! i) k)
                       / rowTotal strToNum (yKeysOf config) (rows ! i) * 100
                else 0)"
    if "i < length rows" and "k \<in> set (yKeysOf config)" for i k
    using that by (simp add: percentData_def getProp_percentRow_metric)
  ultimately show ?thesis
    using rowTotal_sum_list [of strToNum "yKeysOf config" row]
    by (simp add: numberOr0_simps)
qed

theorem stacked_100_percentages_witness:
  "percentData readDigits sampleConfig
     [[(''cat'', Str ''A''), (''x'', Num 10), (''y'', Num 30)],
      [(''cat'', Str ''B''), (''x'', Num 0), (''y'', Str ''n/a'')]]
   = [[(''cat'', Str ''A''), (''x'', Num 25), (''y'', Num 75)],
      [(''cat'', Str ''B''), (''x'', Num 0), (''y'', Num 0)]]"
  using stacked_100_percentages
    [where config = sampleConfig and strToNum = readDigits
       and rows = "[[(''cat'', Str ''A''), (''x'', Num 10), (''y'', Num 30)],
                    [(''cat'', Str ''B''), (''x'', Num 0), (''y'', Str ''n/a'')]]"]
  by (simp add: percentData_def percentRow_def rowTotal_def sampleConfig_def yKeysOf_def
        xKeyOrName_def orDefault_def numberOr0_def getProp_def setProp_def readDigits_def Let_def)

text \<open>
  Claim C4, as stated, fails: a key of the input row that is neither the category key
  nor a metric key (\<^verbatim>\<open>region\<close> below) is not in the output row.
\<close>

theorem stacked_100_drops_other_keys:
  "percentData readDigits sampleConfig
     [[(''cat'', Str ''A''), (''region'', Str ''EU''), (''x'', Num 10), (''y'', Num 30)]]
   = [[(''cat'', Str ''A''), (''x'', Num 25), (''y'', Num 75)]]"
  by (simp add: percentData_def percentRow_def rowTotal_def sampleConfig_def yKeysOf_def
        xKeyOrName_def orDefault_def numberOr0_def getProp_def setProp_def Let_def)

text \<open>
  Claim C4, amended. The stacked\_100 transform preserves row order: output row \<open>i\<close> is
  computed from input row \<open>i\<close> alone, and there are as many output rows as input rows.
  The keys of an output row are the category key (\<^verbatim>\<open>xKey\<close>, or \<^verbatim>\<open>name\<close> without one) and the
  metric keys, and no other. The category key keeps the value it has in the input row
  when it is not itself a metric key; every other non-metric key of the input row is
  absent from the output row.
\<close>

theorem stacked_100_order_and_category:
  "length (percentData strToNum config rows) = length rows
   \<and> (\<forall>i < length rows.
         percentData strToNum config rows ! i =
           percentRow strToNum (xKeyOrName config) (yKeysOf config) (rows ! i)
       \<and> set (keysOf (percentData strToNum config rows ! i)) =
           insert (xKeyOrName config) (set (yKeysOf config))
       \<and> (xKeyOrName config \<notin> set (yKeysOf config) \<longrightarrow>
            getProp (percentData strToNum config rows ! i) (xKeyOrName config) =
              getProp (rows ! i) (xKeyOrName config))
       \<and> (\<forall>k. k \<noteq> xKeyOrName config \<and> k \<notin> set (yKeysOf config) \<longrightarrow>
            getProp (percentData strToNum config rows ! i) k = Undefined))"
  by (simp add: percentData_def keysOf_percentRow getProp_percentRow_other)

theorem stacked_100_order_and_category_witness:
  "map keysOf (percentData readDigits sampleConfig
     [[(''cat'', Str ''A''), (''region'', Str ''EU''), (''x'', Num 10), (''y'', Num 30)],
      [(''cat'', Str ''B''), (''region'', Str ''US''), (''x'', Num 1), (''y'', Num 3)]])
   = [[''cat'', ''x'', ''y''], [''cat'', ''x'', ''y'']]
   \<and> map (\<lambda>r. getProp r ''cat'') (percentData readDigits sampleConfig
     [[(''cat'', Str ''A''), (''region'', Str ''EU''), (''x'', Num 10), (''y'', Num 30)],
      [(''cat'', Str ''B''), (''region'', Str ''US''), (''x'', Num 1), (''y'', Num 3)]])
   = [Str ''A'', Str ''B'']"
  using stacked_100_order_and_category
    [where config = sampleConfig and strToNum = readDigits
       and rows = "[[(''cat'', Str ''A''), (''region'', Str ''EU''), (''x'', Num 10), (''y'', Num 30)],
      [(''cat'', Str ''B''), (''region'', Str ''US''), (''x'', Num 1), (''y'', Num 3)]]"]
  by (simp add: percentData_def percentRow_def rowTotal_def sampleConfig_def yKeysOf_def
        xKeyOrName_def orDefault_def numberOr0_def getProp_def setProp_def keysOf_def Let_def)


section \<open>The funnel transform\<close>

lemma length_COLORS: "length COLORS = 8"
  by (simp add: COLORS_def)

lemma length_funnelMapped:
  "length (funnelMapped numToStr strToNum config rows) = length rows"
  by (simp add: funnelMapped_def)

lemma nth_funnelMapped:
  "i < length rows \<Longrightarrow>
   funnelMapped numToStr strToNum config rows ! i =
     \<lparr> f_name = toStr numToStr (getProp (rows ! i) (xKeyOrName config)),
       f_value = numberOr0 strToNum (getProp (rows ! i) (getYKey config)),
       f_fill = COLORS ! (i mod 8) \<rparr>"
  by (simp add: funnelMapped_def funnelEntry_def nth_enumerate_eq length_COLORS)

lemma sorted_descending:
  fixes f :: "'a \<Rightarrow> real"
  shows "sorted (map (\<lambda>e. - f e) xs) = sorted_wrt (\<lambda>a b. a \<ge> b) (map f xs)"
  by (induction xs) auto

lemma sort_key_all_equal:
  fixes k :: "'a \<Rightarrow> real"
  assumes "\<forall>e \<in> set xs. \<forall>e' \<in> set xs. k e = k e'"
  shows "sort_key k xs = xs"
proof -
  have "sorted_wrt (\<lambda>a b. k a \<le> k b) xs"
  proof (rule sorted_wrt_mono_rel [of xs "\<lambda>_ _. True"])
    fix a b assume "a \<in> set xs" "b \<in> set xs"
    with assms have "k a = k b" by blast
    then show "k a \<le> k b" by simp
  next
    show "sorted_wrt (\<lambda>_ _. True) xs" by (induction xs) simp_all
  qed
  then have "sorted (map k xs)" by (simp only: sorted_map)
  then show ?thesis by (rule sort_key_id_if_sorted [where f = k and xs = xs])
qed

text \<open>
  Claim C5. Before sorting, element \<open>i\<close> of the funnel holds the printed value of row \<open>i\<close>
  at the category key (\<^verbatim>\<open>xKey\<close>, or \<^verbatim>\<open>name\<close> without one), its numeric value at the
  primary key (0 when missing or not a number) and the palette colour of index
  \<open>i mod 8\<close>. The result is a rearrangement of these elements, each with the colour it
  was given before sorting, in descending order of value; elements of equal value keep
  their relative order, so that a sequence of equal values is returned as it was.
\<close>

theorem funnel_sorted_descending:
  fixes rows :: "Row list" and strToNum :: "string \<Rightarrow> real option"
    and numToStr :: "real \<Rightarrow> string" and config :: VisualizationConfig
  defines "pre \<equiv> funnelMapped numToStr strToNum config rows"
  defines "out \<equiv> funnelData numToStr strToNum config rows"
  shows "length pre = length rows
    \<and> (\<forall>i < length rows.
          pre ! i =
            \<lparr> f_name = toStr numToStr (getProp (rows ! i) (xKeyOrName config)),
              f_value = numberOr0 strToNum (getProp (rows ! i) (getYKey config)),
              f_fill = COLORS ! (i mod 8) \<rparr>)
    \<and> mset out = mset pre
    \<and> sorted_wrt (\<lambda>a b. a \<ge> b) (map f_value out)
    \<and> (\<forall>v. filter (\<lambda>e. f_value e = v) out = filter (\<lambda>e. f_value e = v) pre)
    \<and> ((\<forall>e \<in> set pre. \<forall>e' \<in> set pre. f_value e = f_value e') \<longrightarrow> out = pre)"
proof -
  have out: "out = sort_key (\<lambda>e. - f_value e) pre"
    by (simp add: out_def pre_def funnelData_def)
  have a: "length pre = length rows"
    by (simp add: pre_def length_funnelMapped)
  have b: "\<forall>i < length rows.
          pre ! i =
            \<lparr> f_name = toStr numToStr (getProp (rows ! i) (xKeyOrName config)),
              f_value = numberOr0 strToNum (getProp (rows ! i) (getYKey config)),
              f_fill = COLORS ! (i mod 8) \<rparr>"
    unfolding pre_def by (intro allI impI) (rule nth_funnelMapped)
  have c: "mset out = mset pre"
    by (simp only: out mset_sort)
  have "sorted (map (\<lambda>e. - f_value e) out)"
    by (simp only: out sorted_sort_key)
  then have d: "sorted_wrt (\<lambda>a b. a \<ge> b) (map f_value out)"
    by (simp only: sorted_descending)
  have e: "\<forall>v. filter (\<lambda>e. f_value e = v) out = filter (\<lambda>e. f_value e = v) pre"
  proof
    fix v
    have "filter (\<lambda>e. - f_value e = - v) (sort_key (\<lambda>e. - f_value e) pre) =
          filter (\<lambda>e. - f_value e = - v) pre"
      by (rule sort_key_stable)
    then show "filter (\<lambda>e. f_value e = v) out = filter (\<lambda>e. f_value e = v) pre"
      by (simp only: out neg_equal_iff_equal)
  qed
  have f: "(\<forall>e \<in> set pre. \<forall>e' \<in> set pre. f_value e = f_value e') \<longrightarrow> out = pre"
  proof
    assume eq: "\<forall>e \<in> set pre. \<forall>e' \<in> set pre. f_value e = f_value e'"
    have "\<forall>e \<in> set pre. \<forall>e' \<in> set pre. - f_value e = - f_value e'"
    proof (intro ballI)
      fix e e' assume "e \<in> set pre" and "e' \<in> set pre"
      with eq have "f_value e = f_value e'" by blast
      then show "- f_value e = - f_value e'" by (simp only:)
    qed
    then have "sort_key (\<lambda>e. - f_value e) pre = pre"
      by (rule sort_key_all_equal [where k = "\<lambda>e. - f_value e" and xs = pre])
    then show "out = pre" by (simp only: out)
  qed
  show ?thesis
    by (rule conjI [OF a conjI [OF b conjI [OF c conjI [OF d conjI [OF e f]]]]])
qed

theorem funnel_sorted_descending_witness:
  "funnelData printInteger readDigits (sampleConfig\<lparr>yKey := Some (Single ''x'')\<rparr>)
     [[(''cat'', Str ''a''), (''x'', Num 3)],
      [(''cat'', Str ''b''), (''x'', Num 9)],
      [(''cat'', Str ''c''), (''x'', Num 1)]]
   = [\<lparr>f_name = ''b'', f_value = 9, f_fill = ''#764ba2''\<rparr>,
      \<lparr>f_name = ''a'', f_value = 3, f_fill = ''#667eea''\<rparr>,
      \<lparr>f_name = ''c'', f_value = 1, f_fill = ''#10b981''\<rparr>]
   \<and> funnelData printInteger readDigits (sampleConfig\<lparr>yKey := Some (Single ''x'')\<rparr>)
     [[(''cat'', Str ''a''), (''x'', Num 4)],
      [(''cat'', Str ''b''), (''x'', Num 4)]]
   = [\<lparr>f_name = ''a'', f_value = 4, f_fill = ''#667eea''\<rparr>,
      \<lparr>f_name = ''b'', f_value = 4, f_fill = ''#764ba2''\<rparr>]"
  using funnel_sorted_descending
    [where config = "sampleConfig\<lparr>yKey := Some (Single ''x'')\<rparr>"
       and strToNum = readDigits and numToStr = printInteger
       and rows = "[[(''cat'', Str ''a''), (''x'', Num 3)],
      [(''cat'', Str ''b''), (''x'', Num 9)],
      [(''cat'', Str ''c''), (''x'', Num 1)]]"]
  by (simp add: funnelData_def funnelMapped_def funnelEntry_def
        sampleConfig_def getYKey_def xKeyOrName_def orDefault_def numberOr0_def getProp_def
        COLORS_def)


section \<open>The tick formatters of the composed chart\<close>










end
